theory Spec2Isabelle
  imports Main "HOL-Library.Word"
begin

section \<open>Data model\<close>

text \<open>
  The module \<^verbatim>\<open>juce_serialport\<close> wraps a serial device in three classes:
  \<^verbatim>\<open>SerialPort\<close> (the handle), \<^verbatim>\<open>SerialPortInputStream\<close> and
  \<^verbatim>\<open>SerialPortOutputStream\<close> (one worker thread and one byte buffer each).
  The embedding follows \<^verbatim>\<open>core/Streams.h\<close> and
  \<^verbatim>\<open>native/juce_serialport_Windows.cpp\<close>.

  Bytes are 8-bit characters (\<^typ>\<open>char\<close>); the newline byte is \<^term>\<open>CHR 0x0A\<close>.
  Counters declared \<^verbatim>\<open>int\<close> or \<^verbatim>\<open>int64\<close> are modelled as \<^typ>\<open>int\<close>:
  every result below is about buffers shorter than \<open>2^31\<close> bytes, where the
  source's arithmetic on them does not overflow.
\<close>

type_synonym byte = char

type_synonym HANDLE = "64 word"

text \<open>The value \<^verbatim>\<open>CreateFile\<close> returns on failure (\<^verbatim>\<open>(HANDLE) -1\<close>).\<close>

definition INVALID_HANDLE_VALUE :: HANDLE where
  "INVALID_HANDLE_VALUE = - 1"

text \<open>
  Modelled from the spec: the macro \<^verbatim>\<open>INVALID_HANDLE\<close> is used by the source but
  defined in none of its files. The constructor and the failure branch of
  \<^verbatim>\<open>open\<close> store \<^verbatim>\<open>0\<close> in \<^verbatim>\<open>portHandle\<close>, the loops of both workers
  test \<^verbatim>\<open>port->portHandle\<close> for being non-zero, and the spec has \<^verbatim>\<open>exists()\<close>
  false after a failed open: the macro is the null handle.
\<close>

definition INVALID_HANDLE :: HANDLE where
  "INVALID_HANDLE = 0"

subsection \<open>SerialPortConfig\<close>

text \<open>
  The enumerators carry the names \<^verbatim>\<open>setConfig\<close> and \<^verbatim>\<open>getConfig\<close> use
  (the header calls them \<^verbatim>\<open>Parity::none\<close>, \<^verbatim>\<open>StopBits::one\<close>, and so on).
\<close>

datatype StopBits = STOPBITS_1 | STOPBITS_1ANDHALF | STOPBITS_2

datatype FlowControl = FLOWCONTROL_NONE | FLOWCONTROL_HARDWARE | FLOWCONTROL_XONXOFF

datatype Parity =
    SERIALPORT_PARITY_NONE
  | SERIALPORT_PARITY_ODD
  | SERIALPORT_PARITY_EVEN
  | SERIALPORT_PARITY_SPACE
  | SERIALPORT_PARITY_MARK

record SerialPortConfig =
  bps :: "32 word"
  databits :: "32 word"
  parity :: Parity
  stopbits :: StopBits
  flowcontrol :: FlowControl

text \<open>
  \<^verbatim>\<open>SerialPortConfig() = default\<close>: the members take their default member
  initialisers. \<^verbatim>\<open>parity\<close> has none, so its value is whatever the storage
  held; the model takes that value as the argument \<open>indeterminate\<close>.
\<close>

definition SerialPortConfig_default :: "Parity \<Rightarrow> SerialPortConfig" where
  "SerialPortConfig_default indeterminate =
     \<lparr>bps = 9600, databits = 9600, parity = indeterminate,
      stopbits = STOPBITS_1, flowcontrol = FLOWCONTROL_NONE\<rparr>"

subsection \<open>SerialPort\<close>

record SerialPort =
  portHandle :: HANDLE
  portDescriptor :: int
  canceled :: bool
  portPath :: string

subsection \<open>MemoryBlock\<close>

text \<open>
  \<^verbatim>\<open>juce::MemoryBlock\<close> is a resizable block of bytes: a list, whose length is
  the block's size. The operations the streams call are those of the JUCE
  library. An access outside the block is undefined in C++ and is the value
  \<open>OutOfBounds\<close> here.
\<close>

type_synonym MemoryBlock = "byte list"

datatype fault = OutOfBounds

text \<open>\<^verbatim>\<open>ensureSize (n)\<close>: grow to \<open>n\<close> bytes when smaller (new bytes unset, here 0).\<close>

definition ensureSize :: "MemoryBlock \<Rightarrow> int \<Rightarrow> MemoryBlock" where
  "ensureSize mb minimumSize =
     (if int (length mb) < minimumSize
      then mb @ replicate (nat minimumSize - length mb) (CHR 0x00)
      else mb)"

text \<open>
  \<^verbatim>\<open>removeSection (startByte, numBytesToRemove)\<close>, both \<^verbatim>\<open>size_t\<close>: cut the
  block at \<open>startByte\<close> when the section reaches its end, close the gap otherwise.
\<close>

definition removeSection :: "MemoryBlock \<Rightarrow> nat \<Rightarrow> nat \<Rightarrow> MemoryBlock" where
  "removeSection mb startByte numBytesToRemove =
     (if startByte + numBytesToRemove \<ge> length mb
      then take startByte mb
      else take startByte mb @ drop (startByte + numBytesToRemove) mb)"

text \<open>\<^verbatim>\<open>buffer[i]\<close>: no bounds check in the library.\<close>

definition at :: "MemoryBlock \<Rightarrow> int \<Rightarrow> fault + byte" where
  "at mb i = (if 0 \<le> i \<and> i < int (length mb) then Inr (mb ! nat i) else Inl OutOfBounds)"

text \<open>\<^verbatim>\<open>memcpy (dest, mb.getData(), n)\<close>: the first \<open>n\<close> bytes of the block.\<close>

definition memcpy :: "MemoryBlock \<Rightarrow> int \<Rightarrow> fault + byte list" where
  "memcpy src n =
     (if n < 0 \<or> int (length src) < n then Inl OutOfBounds else Inr (take (nat n) src))"

subsection \<open>The streams\<close>

datatype NotificationType = NOTIFY_OFF | NOTIFY_ON_CHAR | NOTIFY_ALWAYS

text \<open>
  The members both streams have: the pointer to the port (\<open>None\<close> is
  \<^verbatim>\<open>nullptr\<close>, \<open>Some p\<close> the port it points to as it is now), the byte counter
  (\<^verbatim>\<open>numBufferedBytes\<close> in the header, \<^verbatim>\<open>bufferedbytes\<close> in the Windows file),
  the buffer, and the exit flag of the \<^verbatim>\<open>juce::Thread\<close> base class that
  \<^verbatim>\<open>threadShouldExit()\<close> reads and \<^verbatim>\<open>signalThreadShouldExit()\<close> sets.
\<close>

record SerialStream =
  port :: "SerialPort option"
  numBufferedBytes :: int
  buffer :: MemoryBlock
  threadShouldExit :: bool

text \<open>
  The input stream adds the notification mode; \<open>changeMessages\<close> counts the
  calls of \<^verbatim>\<open>sendChangeMessage()\<close>.
\<close>

record SerialPortInputStream = SerialStream +
  notify :: NotificationType
  notifyChar :: byte
  changeMessages :: nat

type_synonym SerialPortOutputStream = SerialStream

text \<open>The guard \<^verbatim>\<open>! port || port->portHandle == INVALID_HANDLE\<close>.\<close>

definition port_unusable :: "SerialPort option \<Rightarrow> bool" where
  "port_unusable p = (case p of None \<Rightarrow> True | Some sp \<Rightarrow> portHandle sp = INVALID_HANDLE)"

text \<open>The counter agrees with the block: what every operation below maintains.\<close>

definition buffer_consistent :: "'a SerialStream_scheme \<Rightarrow> bool" where
  "buffer_consistent s = (numBufferedBytes s = int (length (buffer s)))"

section \<open>SerialPortInputStream\<close>

subsection \<open>read\<close>

text \<open>
  \<^verbatim>\<open>int read (void* destBuffer, int maxBytesToRead)\<close>. The result is the returned
  count, the bytes copied to \<^verbatim>\<open>destBuffer\<close>, and the stream afterwards.
\<close>

definition SerialPortInputStream_read ::
  "SerialPortInputStream \<Rightarrow> int \<Rightarrow> fault + (int \<times> byte list \<times> SerialPortInputStream)" where
  "SerialPortInputStream_read s maxBytesToRead =
     (if port_unusable (port s) then Inr (- 1, [], s)
      else
        let n = (if maxBytesToRead > numBufferedBytes s then numBufferedBytes s
                 else maxBytesToRead)
        in case memcpy (buffer s) n of
             Inl f \<Rightarrow> Inl f
           | Inr dest \<Rightarrow>
               Inr (n, dest,
                    s\<lparr>buffer := removeSection (buffer s) 0 (nat n),
                      numBufferedBytes := numBufferedBytes s - n\<rparr>))"

subsection \<open>canReadLine, isExhausted, getTotalLength\<close>

text \<open>
  \<^verbatim>\<open>int i = 0; while (i < numBufferedBytes) if (buffer[i++] == '\n') return true;
  return false;\<close>
\<close>

function canReadLine_loop :: "SerialPortInputStream \<Rightarrow> int \<Rightarrow> fault + bool" where
  "canReadLine_loop s i =
     (if i < numBufferedBytes s
      then (case at (buffer s) i of
              Inl f \<Rightarrow> Inl f
            | Inr c \<Rightarrow> if c = CHR 0x0A then Inr True else canReadLine_loop s (i + 1))
      else Inr False)"
  by pat_completeness auto
termination
  by (relation "measure (\<lambda>(s, i). nat (numBufferedBytes s - i))") auto

declare canReadLine_loop.simps [simp del]

definition canReadLine :: "SerialPortInputStream \<Rightarrow> fault + bool" where
  "canReadLine s = canReadLine_loop s 0"

definition isExhausted :: "SerialPortInputStream \<Rightarrow> bool" where
  "isExhausted s = (numBufferedBytes s \<noteq> 0)"

definition getTotalLength :: "SerialPortInputStream \<Rightarrow> int" where
  "getTotalLength s = numBufferedBytes s"

subsection \<open>readNextLine\<close>

text \<open>
  A \<^verbatim>\<open>juce::String\<close> is a sequence of non-null characters, each taken here
  for the byte it was made from. \<^verbatim>\<open>String::charToString (c)\<close> is the
  one-character string, empty for the null character; \<^verbatim>\<open>trim()\<close> removes the
  whitespace at both ends.
\<close>

definition charToString :: "char \<Rightarrow> string" where
  "charToString c = (if c = CHR 0x00 then [] else [c])"

definition isWhitespace :: "char \<Rightarrow> bool" where
  "isWhitespace c =
     (c = CHR '' '' \<or> c = CHR 0x09 \<or> c = CHR 0x0A \<or> c = CHR 0x0B \<or> c = CHR 0x0C \<or> c = CHR 0x0D)"

definition trim :: "string \<Rightarrow> string" where
  "trim s = rev (dropWhile isWhitespace (rev (dropWhile isWhitespace s)))"

text \<open>
  \<^verbatim>\<open>while (read (&c, 1) && (c != '\n')) s.append (String::charToString (c), 1);\<close>
  The loop has no bound of its own, so its model is a partial function: \<open>None\<close>
  is a call that never returns. \<open>c\<close> keeps its value when \<^verbatim>\<open>read\<close> copies
  nothing.
\<close>

partial_function (option) readNextLine_loop ::
  "SerialPortInputStream \<Rightarrow> char \<Rightarrow> string \<Rightarrow> (fault + string \<times> SerialPortInputStream) option" where
  "readNextLine_loop st c s =
     (case SerialPortInputStream_read st 1 of
        Inl f \<Rightarrow> Some (Inl f)
      | Inr (r, dest, st') \<Rightarrow>
          (let c' = (case dest of [] \<Rightarrow> c | x # _ \<Rightarrow> x)
           in if r \<noteq> 0 \<and> c' \<noteq> CHR 0x0A
              then readNextLine_loop st' c' (s @ take 1 (charToString c'))
              else Some (Inr (s, st'))))"

declare readNextLine_loop.simps [code]

definition readNextLine ::
  "SerialPortInputStream \<Rightarrow> (fault + string \<times> SerialPortInputStream) option" where
  "readNextLine st =
     (case readNextLine_loop st (CHR 0x00) [] of
        None \<Rightarrow> None
      | Some (Inl f) \<Rightarrow> Some (Inl f)
      | Some (Inr (s, st')) \<Rightarrow> Some (Inr (trim s, st')))"

subsection \<open>The worker: run\<close>

text \<open>\<^verbatim>\<open>buffer[i] = c\<close>: a write inside the block.\<close>

definition put :: "MemoryBlock \<Rightarrow> int \<Rightarrow> byte \<Rightarrow> fault + MemoryBlock" where
  "put mb i c = (if 0 \<le> i \<and> i < int (length mb) then Inr (mb[nat i := c]) else Inl OutOfBounds)"

text \<open>
  The critical section of \<^verbatim>\<open>run\<close> that stores one received byte. \<open>c\<close> is an
  \<^verbatim>\<open>unsigned char\<close> and \<^verbatim>\<open>notifyChar\<close> a (signed) \<^verbatim>\<open>char\<close>: after the
  integer promotions they are equal only below 128.
\<close>

definition run_store :: "SerialPortInputStream \<Rightarrow> byte \<Rightarrow> fault + SerialPortInputStream" where
  "run_store s c =
     (case put (ensureSize (buffer s) (numBufferedBytes s + 1)) (numBufferedBytes s) c of
        Inl f \<Rightarrow> Inl f
      | Inr b \<Rightarrow>
          (let s' = s\<lparr>buffer := b, numBufferedBytes := numBufferedBytes s + 1\<rparr>
           in if notify s = NOTIFY_ALWAYS
                 \<or> (notify s = NOTIFY_ON_CHAR \<and> c = notifyChar s \<and> (of_char c :: nat) < 128)
              then Inr (s'\<lparr>changeMessages := changeMessages s' + 1\<rparr>)
              else Inr s'))"

text \<open>
  \<^verbatim>\<open>do { ReadFile (.., &c, 1, &bytesread, ..); if (bytesread == 1) store c }
  while (bytesread > 0);\<close> over the bytes the device has ready.
\<close>

fun read_available :: "byte list \<Rightarrow> SerialPortInputStream \<Rightarrow> fault + SerialPortInputStream" where
  "read_available [] s = Inr s"
| "read_available (c # cs) s =
     (case run_store s c of Inl f \<Rightarrow> Inl f | Inr s' \<Rightarrow> read_available cs s')"

section \<open>SerialPort\<close>

text \<open>
  The answers of the Win32 calls \<^verbatim>\<open>open\<close> makes. \<^verbatim>\<open>DebugLog\<close> only forwards
  text to the injected callback and is left out of the model.
\<close>

record win32 =
  CreateFile :: "string \<Rightarrow> HANDLE"
  GetCommTimeouts :: "HANDLE \<Rightarrow> bool"
  SetCommTimeouts :: "HANDLE \<Rightarrow> bool"
  SetCommMask :: "HANDLE \<Rightarrow> bool"

definition SerialPort_close :: "SerialPort \<Rightarrow> SerialPort" where
  "SerialPort_close p =
     (if portHandle p \<noteq> INVALID_HANDLE then p\<lparr>portHandle := INVALID_HANDLE\<rparr> else p)"

definition SerialPort_exists :: "SerialPort \<Rightarrow> bool" where
  "SerialPort_exists p = (portHandle p \<noteq> INVALID_HANDLE)"

definition SerialPort_open :: "win32 \<Rightarrow> SerialPort \<Rightarrow> string \<Rightarrow> bool \<times> SerialPort" where
  "SerialPort_open os p newPortPath =
     (let p1 = p\<lparr>canceled := False, portPath := newPortPath,
                 portHandle := CreateFile os newPortPath\<rparr>
      in if portHandle p1 = INVALID_HANDLE_VALUE then (False, p1\<lparr>portHandle := 0\<rparr>)
         else if \<not> GetCommTimeouts os (portHandle p1) then (False, p1)
         else if \<not> SetCommTimeouts os (portHandle p1) then (False, p1)
         else if \<not> SetCommMask os (portHandle p1) then (False, p1)
         else (True, p1))"


subsection \<open>setConfig and getConfig\<close>

text \<open>The members of the Win32 \<^verbatim>\<open>DCB\<close> the two functions touch, and its constants.\<close>

record DCB =
  DCBlength :: "32 word"
  BaudRate :: "32 word"
  fBinary :: bool
  fParity :: bool
  fOutxCtsFlow :: bool
  fOutxDsrFlow :: bool
  fDtrControl :: "2 word"
  fOutX :: bool
  fInX :: bool
  fRtsControl :: "2 word"
  XonLim :: "16 word"
  XoffLim :: "16 word"
  ByteSize :: "8 word"
  Parity :: "8 word"
  StopBits :: "8 word"

definition NOPARITY :: "8 word" where "NOPARITY = 0"
definition ODDPARITY :: "8 word" where "ODDPARITY = 1"
definition EVENPARITY :: "8 word" where "EVENPARITY = 2"
definition MARKPARITY :: "8 word" where "MARKPARITY = 3"
definition SPACEPARITY :: "8 word" where "SPACEPARITY = 4"

definition ONESTOPBIT :: "8 word" where "ONESTOPBIT = 0"
definition ONE5STOPBITS :: "8 word" where "ONE5STOPBITS = 1"
definition TWOSTOPBITS :: "8 word" where "TWOSTOPBITS = 2"

definition DTR_CONTROL_ENABLE :: "2 word" where "DTR_CONTROL_ENABLE = 1"
definition DTR_CONTROL_HANDSHAKE :: "2 word" where "DTR_CONTROL_HANDSHAKE = 2"
definition RTS_CONTROL_ENABLE :: "2 word" where "RTS_CONTROL_ENABLE = 1"
definition RTS_CONTROL_HANDSHAKE :: "2 word" where "RTS_CONTROL_HANDSHAKE = 2"

text \<open>\<^verbatim>\<open>zerostruct (dcb)\<close>.\<close>

definition zero_DCB :: DCB where
  "zero_DCB =
     \<lparr>DCBlength = 0, BaudRate = 0, fBinary = False, fParity = False,
      fOutxCtsFlow = False, fOutxDsrFlow = False, fDtrControl = 0,
      fOutX = False, fInX = False, fRtsControl = 0, XonLim = 0, XoffLim = 0,
      ByteSize = 0, Parity = 0, StopBits = 0\<rparr>"

text \<open>The \<^verbatim>\<open>DCB\<close> that \<^verbatim>\<open>setConfig\<close> builds and hands to \<^verbatim>\<open>SetCommState\<close>.\<close>

definition setConfig_dcb :: "SerialPortConfig \<Rightarrow> DCB" where
  "setConfig_dcb config =
     (let dcb = zero_DCB\<lparr>DCBlength := 28, fBinary := True, XonLim := 2048, XoffLim := 512,
                         BaudRate := bps config, ByteSize := ucast (databits config),
                         fParity := True\<rparr>;
          dcb = (case parity config of
                   SERIALPORT_PARITY_ODD \<Rightarrow> dcb\<lparr>Parity := ODDPARITY\<rparr>
                 | SERIALPORT_PARITY_EVEN \<Rightarrow> dcb\<lparr>Parity := EVENPARITY\<rparr>
                 | SERIALPORT_PARITY_MARK \<Rightarrow> dcb\<lparr>Parity := MARKPARITY\<rparr>
                 | SERIALPORT_PARITY_SPACE \<Rightarrow> dcb\<lparr>Parity := SPACEPARITY\<rparr>
                 | SERIALPORT_PARITY_NONE \<Rightarrow> dcb\<lparr>Parity := NOPARITY, fParity := False\<rparr>);
          dcb = (case stopbits config of
                   STOPBITS_1ANDHALF \<Rightarrow> dcb\<lparr>StopBits := ONE5STOPBITS\<rparr>
                 | STOPBITS_2 \<Rightarrow> dcb\<lparr>StopBits := TWOSTOPBITS\<rparr>
                 | STOPBITS_1 \<Rightarrow> dcb\<lparr>StopBits := ONESTOPBIT\<rparr>)
      in case flowcontrol config of
           FLOWCONTROL_XONXOFF \<Rightarrow>
             dcb\<lparr>fOutxCtsFlow := False, fOutxDsrFlow := False,
                 fDtrControl := DTR_CONTROL_ENABLE, fOutX := True, fInX := True,
                 fRtsControl := RTS_CONTROL_ENABLE\<rparr>
         | FLOWCONTROL_HARDWARE \<Rightarrow>
             dcb\<lparr>fOutxCtsFlow := True, fOutxDsrFlow := True,
                 fDtrControl := DTR_CONTROL_HANDSHAKE, fOutX := False, fInX := False,
                 fRtsControl := RTS_CONTROL_HANDSHAKE\<rparr>
         | FLOWCONTROL_NONE \<Rightarrow>
             dcb\<lparr>fOutxCtsFlow := False, fOutxDsrFlow := False,
                 fDtrControl := DTR_CONTROL_ENABLE, fOutX := False, fInX := False,
                 fRtsControl := RTS_CONTROL_ENABLE\<rparr>)"

text \<open>\<open>SetCommState\<close> is the answer of the Win32 call of that name.\<close>

definition SerialPort_setConfig ::
  "(HANDLE \<Rightarrow> DCB \<Rightarrow> bool) \<Rightarrow> SerialPort \<Rightarrow> SerialPortConfig \<Rightarrow> bool" where
  "SerialPort_setConfig SetCommState p config =
     (if portHandle p = INVALID_HANDLE then False
      else SetCommState (portHandle p) (setConfig_dcb config))"

text \<open>What \<^verbatim>\<open>getConfig\<close> writes into \<^verbatim>\<open>config\<close> from the \<^verbatim>\<open>DCB\<close> it was given.\<close>

definition getConfig_dcb :: "DCB \<Rightarrow> SerialPortConfig \<Rightarrow> SerialPortConfig" where
  "getConfig_dcb dcb config =
     config\<lparr>bps := BaudRate dcb,
            databits := ucast (ByteSize dcb),
            parity :=
              (if Parity dcb = ODDPARITY then SERIALPORT_PARITY_ODD
               else if Parity dcb = EVENPARITY then SERIALPORT_PARITY_EVEN
               else if Parity dcb = MARKPARITY then SERIALPORT_PARITY_MARK
               else if Parity dcb = SPACEPARITY then SERIALPORT_PARITY_SPACE
               else SERIALPORT_PARITY_NONE),
            stopbits :=
              (if StopBits dcb = ONE5STOPBITS then STOPBITS_1ANDHALF
               else if StopBits dcb = TWOSTOPBITS then STOPBITS_2
               else STOPBITS_1),
            flowcontrol :=
              (if fOutX dcb \<and> fInX dcb then FLOWCONTROL_XONXOFF
               else if fDtrControl dcb = DTR_CONTROL_HANDSHAKE
                       \<and> fRtsControl dcb = RTS_CONTROL_HANDSHAKE
                    then FLOWCONTROL_HARDWARE
               else FLOWCONTROL_NONE)\<rparr>"

text \<open>\<open>GetCommState\<close> answers \<open>None\<close> for \<^verbatim>\<open>FALSE\<close>, the device's \<^verbatim>\<open>DCB\<close> otherwise.\<close>

definition SerialPort_getConfig ::
  "(HANDLE \<Rightarrow> DCB option) \<Rightarrow> SerialPort \<Rightarrow> SerialPortConfig \<Rightarrow> bool \<times> SerialPortConfig" where
  "SerialPort_getConfig GetCommState p config =
     (if portHandle p = INVALID_HANDLE then (False, config)
      else case GetCommState (portHandle p) of
             None \<Rightarrow> (False, config)
           | Some dcb \<Rightarrow> (True, getConfig_dcb dcb config))"

section \<open>The worker loops\<close>

datatype worker_status = Running | Exited

subsection \<open>SerialPortInputStream::run and cancel\<close>

text \<open>
  What the operating system answers during one turn of the outer loop:
  whether \<^verbatim>\<open>WaitCommEvent\<close> failed (returned 0 with an error other than
  \<^verbatim>\<open>ERROR_IO_PENDING\<close>), whether \<^verbatim>\<open>WaitForSingleObject (ov.hEvent, 100)\<close>
  returned \<^verbatim>\<open>WAIT_OBJECT_0\<close> rather than timing out, whether
  \<^verbatim>\<open>GetCommMask\<close> succeeded, and the bytes \<^verbatim>\<open>ReadFile\<close> then delivers.
\<close>

record comm_event =
  waitCommEventFailed :: bool
  eventSignalled :: bool
  commMaskOk :: bool
  available :: "byte list"

text \<open>
  The loop condition of both workers:
  \<^verbatim>\<open>port != INVALID_HANDLE && port->portHandle && ! threadShouldExit()\<close> in the
  input stream, \<^verbatim>\<open>port && port->portHandle && ! threadShouldExit()\<close> in the
  output stream.
\<close>

definition run_condition :: "'a SerialStream_scheme \<Rightarrow> bool" where
  "run_condition s =
     (case port s of None \<Rightarrow> False | Some p \<Rightarrow> portHandle p \<noteq> 0 \<and> \<not> threadShouldExit s)"

text \<open>
  One turn of the loop body: the result says whether the loop was left by
  \<^verbatim>\<open>break\<close>, the new \<^verbatim>\<open>ioPending\<close>, and the stream.
\<close>

definition SerialPortInputStream_run_body ::
  "comm_event \<Rightarrow> bool \<Rightarrow> SerialPortInputStream \<Rightarrow> fault + (bool \<times> bool \<times> SerialPortInputStream)" where
  "SerialPortInputStream_run_body ev ioPending s =
     (if \<not> ioPending \<and> waitCommEventFailed ev
      then Inr (True, ioPending, s\<lparr>port := map_option SerialPort_close (port s)\<rparr>)
      else if eventSignalled ev \<and> commMaskOk ev
      then (case read_available (available ev) s of
              Inl f \<Rightarrow> Inl f
            | Inr s' \<Rightarrow> Inr (False, False, s'))
      else Inr (False, True, s))"

text \<open>
  The loop, run against the answers of the operating system, one per turn.
  When the answers are used up the worker is still inside the loop
  (\<open>Running\<close>).
\<close>

fun SerialPortInputStream_run ::
  "comm_event list \<Rightarrow> bool \<Rightarrow> SerialPortInputStream \<Rightarrow> fault + (worker_status \<times> SerialPortInputStream)" where
  "SerialPortInputStream_run [] ioPending s =
     Inr (if run_condition s then Running else Exited, s)"
| "SerialPortInputStream_run (ev # evs) ioPending s =
     (if \<not> run_condition s then Inr (Exited, s)
      else case SerialPortInputStream_run_body ev ioPending s of
             Inl f \<Rightarrow> Inl f
           | Inr (leave, ioPending', s') \<Rightarrow>
               if leave then Inr (Exited, s') else SerialPortInputStream_run evs ioPending' s')"



subsection \<open>The input stream under its lock\<close>

text \<open>
  The worker stores each byte, and \<^verbatim>\<open>read\<close> pops, inside the same critical
  section, so a run of the stream is a sequence of these two steps in some
  order. \<open>in_trace\<close> performs the sequence and collects, in call order, the
  bytes the \<^verbatim>\<open>read\<close> calls delivered.
\<close>

datatype in_event = Recv byte | Read int

fun in_trace ::
  "in_event list \<Rightarrow> SerialPortInputStream \<Rightarrow> fault + (byte list \<times> SerialPortInputStream)" where
  "in_trace [] s = Inr ([], s)"
| "in_trace (Recv c # es) s =
     (case run_store s c of Inl f \<Rightarrow> Inl f | Inr s' \<Rightarrow> in_trace es s')"
| "in_trace (Read n # es) s =
     (case SerialPortInputStream_read s n of
        Inl f \<Rightarrow> Inl f
      | Inr (r, dest, s') \<Rightarrow>
          (case in_trace es s' of
             Inl f \<Rightarrow> Inl f
           | Inr (out, s'') \<Rightarrow> Inr (dest @ out, s'')))"

fun bytes_received :: "in_event list \<Rightarrow> byte list" where
  "bytes_received [] = []"
| "bytes_received (Recv c # es) = c # bytes_received es"
| "bytes_received (Read n # es) = bytes_received es"

fun counts_nonnegative :: "in_event list \<Rightarrow> bool" where
  "counts_nonnegative [] = True"
| "counts_nonnegative (Recv c # es) = counts_nonnegative es"
| "counts_nonnegative (Read n # es) = (0 \<le> n \<and> counts_nonnegative es)"

text \<open>
  The bytes \<^verbatim>\<open>ReadFile\<close> delivers over a sequence of turns of the worker (it
  is called in the turns whose wait is signalled and whose \<^verbatim>\<open>GetCommMask\<close>
  succeeds), and the sequences in which \<^verbatim>\<open>WaitCommEvent\<close> never fails.
\<close>

fun bytes_delivered :: "comm_event list \<Rightarrow> byte list" where
  "bytes_delivered [] = []"
| "bytes_delivered (ev # evs) =
     (if eventSignalled ev \<and> commMaskOk ev then available ev else []) @ bytes_delivered evs"

fun no_wait_failure :: "comm_event list \<Rightarrow> bool" where
  "no_wait_failure [] = True"
| "no_wait_failure (ev # evs) = (\<not> waitCommEventFailed ev \<and> no_wait_failure evs)"

section \<open>SerialPortOutputStream\<close>

definition writeBufferSize :: int where
  "writeBufferSize = 128"


text \<open>
  What the device answers to one \<^verbatim>\<open>WriteFile\<close>: its return value, the value of
  \<^verbatim>\<open>GetLastError()\<close> after it, whether the wait on the overlapped event
  returned \<^verbatim>\<open>WAIT_OBJECT_0\<close>, and the number of bytes of the chunk that the device
  writes, which is the count \<^verbatim>\<open>GetOverlappedResult\<close> reports when the worker gets
  to ask for it.
\<close>

datatype last_error = ERROR_SUCCESS | ERROR_IO_PENDING | ERROR_OTHER

record write_reply =
  iRet :: bool
  lastError :: last_error
  waitSignalled :: bool
  byteswritten :: nat

text \<open>
  One turn of the body of \<^verbatim>\<open>SerialPortOutputStream::run\<close>, during which no
  other thread changes the exit flag. The argument \<open>WriteFile\<close> is the device:
  it answers to the chunk it is handed. The result is the chunk handed to
  \<^verbatim>\<open>WriteFile\<close> with the answer (none when nothing is pending), the bytes then
  removed from the buffer, and the stream afterwards; a turn that ends in
  \<^verbatim>\<open>continue\<close> removes nothing.
\<close>

definition SerialPortOutputStream_run_body ::
  "(byte list \<Rightarrow> write_reply) \<Rightarrow> SerialPortOutputStream
     \<Rightarrow> fault + ((byte list \<times> write_reply) list \<times> byte list \<times> SerialPortOutputStream)" where
  "SerialPortOutputStream_run_body WriteFile s =
     (if numBufferedBytes s = 0 then Inr ([], [], s)
      else
        let bytestowrite = (if numBufferedBytes s > writeBufferSize then writeBufferSize
                            else numBufferedBytes s)
        in case memcpy (buffer s) bytestowrite of
             Inl f \<Rightarrow> Inl f
           | Inr tempbuffer \<Rightarrow>
               let r = WriteFile tempbuffer
               in if threadShouldExit s
                     \<or> (lastError r \<noteq> ERROR_SUCCESS \<and> lastError r \<noteq> ERROR_IO_PENDING)
                  then Inr ([(tempbuffer, r)], [], s)
                  else if \<not> iRet r \<and> lastError r = ERROR_IO_PENDING
                          \<and> (threadShouldExit s \<or> \<not> waitSignalled r)
                  then Inr ([(tempbuffer, r)], [], s)
                  else if byteswritten r > 0
                  then Inr ([(tempbuffer, r)], take (byteswritten r) tempbuffer,
                            s\<lparr>buffer := removeSection (buffer s) 0 (byteswritten r),
                              numBufferedBytes := numBufferedBytes s - int (byteswritten r)\<rparr>)
                  else Inr ([(tempbuffer, r)], [], s))"

text \<open>
  The loop \<^verbatim>\<open>while (port && port->portHandle && ! threadShouldExit())\<close> against
  the device's answers, one device behaviour per turn, collecting the chunks
  handed to \<^verbatim>\<open>WriteFile\<close> and the bytes removed. When the list is used up the
  worker is still inside the loop (\<open>Running\<close>).
\<close>

fun SerialPortOutputStream_run ::
  "(byte list \<Rightarrow> write_reply) list \<Rightarrow> SerialPortOutputStream
     \<Rightarrow> fault + (worker_status \<times> (byte list \<times> write_reply) list \<times> byte list
                  \<times> SerialPortOutputStream)" where
  "SerialPortOutputStream_run [] s =
     Inr (if run_condition s then Running else Exited, [], [], s)"
| "SerialPortOutputStream_run (WriteFile # rest) s =
     (if \<not> run_condition s then Inr (Exited, [], [], s)
      else case SerialPortOutputStream_run_body WriteFile s of
             Inl f \<Rightarrow> Inl f
           | Inr (handed, removed, s') \<Rightarrow>
               (case SerialPortOutputStream_run rest s' of
                  Inl f \<Rightarrow> Inl f
                | Inr (st, hs, rs, s'') \<Rightarrow> Inr (st, handed @ hs, removed @ rs, s'')))"




fun chunks_bounded :: "(byte list \<times> write_reply) list \<Rightarrow> bool" where
  "chunks_bounded [] = True"
| "chunks_bounded ((chunk, r) # hs) = (length chunk \<le> 128 \<and> chunks_bounded hs)"





text \<open>Devices: one that writes the whole chunk at once;\<close>

definition completing_device :: "byte list \<Rightarrow> write_reply" where
  "completing_device chunk =
     \<lparr>iRet = True, lastError = ERROR_SUCCESS, waitSignalled = True,
      byteswritten = length chunk\<rparr>"





section \<open>Concrete streams\<close>

text \<open>A port opened on handle 1, and streams on it holding given bytes.\<close>

definition open_port :: SerialPort where
  "open_port = \<lparr>portHandle = 1, portDescriptor = - 1, canceled = False, portPath = ''COM1''\<rparr>"

definition input_stream_with :: "byte list \<Rightarrow> SerialPortInputStream" where
  "input_stream_with bs =
     \<lparr>port = Some open_port, numBufferedBytes = int (length bs), buffer = bs,
      threadShouldExit = False, notify = NOTIFY_OFF, notifyChar = CHR 0x00,
      changeMessages = 0\<rparr>"

definition output_stream_with :: "byte list \<Rightarrow> SerialPortOutputStream" where
  "output_stream_with bs =
     \<lparr>port = Some open_port, numBufferedBytes = int (length bs), buffer = bs,
      threadShouldExit = False\<rparr>"

text \<open>A turn of the input loop in which the 100 ms wait times out.\<close>

definition wait_timeout :: comm_event where
  "wait_timeout =
     \<lparr>waitCommEventFailed = False, eventSignalled = False, commMaskOk = False, available = []\<rparr>"

text \<open>
  Win32 answers for a path that \<^verbatim>\<open>CreateFile\<close> opens (handle 4) but that is
  no serial device, so that \<^verbatim>\<open>GetCommTimeouts\<close> fails; and for a path that does
  not exist.
\<close>

definition not_a_comm_device :: win32 where
  "not_a_comm_device =
     \<lparr>CreateFile = (\<lambda>path. 4), GetCommTimeouts = (\<lambda>h. False),
      SetCommTimeouts = (\<lambda>h. False), SetCommMask = (\<lambda>h. False)\<rparr>"

definition no_such_path :: win32 where
  "no_such_path =
     \<lparr>CreateFile = (\<lambda>path. INVALID_HANDLE_VALUE), GetCommTimeouts = (\<lambda>h. False),
      SetCommTimeouts = (\<lambda>h. False), SetCommMask = (\<lambda>h. False)\<rparr>"

text \<open>A port as the constructor leaves it.\<close>

definition new_port :: SerialPort where
  "new_port = \<lparr>portHandle = 0, portDescriptor = - 1, canceled = False, portPath = []\<rparr>"

text \<open>Events on the input stream, a buffered line, and events on the output stream.\<close>

definition example_in_events :: "in_event list" where
  "example_in_events =
     [Recv (CHR ''a''), Recv (CHR ''b''), Read 1, Recv (CHR ''c''), Read 5, Read 2]"

definition example_line :: "byte list" where
  "example_line = ''  a b '' @ [CHR 0x0D, CHR 0x0A] @ ''xy''"




text \<open>Turns of the input loop in which \<^verbatim>\<open>ReadFile\<close> delivers the bytes \<open>bs\<close>.\<close>

definition data_ready :: "byte list \<Rightarrow> comm_event" where
  "data_ready bs =
     \<lparr>waitCommEventFailed = False, eventSignalled = True, commMaskOk = True, available = bs\<rparr>"

definition example_comm_events :: "comm_event list" where
  "example_comm_events = [data_ready ''ab'', wait_timeout, data_ready ''c'']"

text \<open>A pending buffer longer than one chunk.\<close>

definition long_buffer :: "byte list" where
  "long_buffer = replicate 130 (CHR ''a'')"

text \<open>A stream whose port, if any, has its \<^verbatim>\<open>canceled\<close> member set to \<open>b\<close>.\<close>

definition set_canceled :: "bool \<Rightarrow> 'a SerialStream_scheme \<Rightarrow> 'a SerialStream_scheme" where
  "set_canceled b s = s\<lparr>port := map_option (\<lambda>p. p\<lparr>canceled := b\<rparr>) (port s)\<rparr>"

section \<open>Properties of the buffers\<close>

subsection \<open>MemoryBlock and read\<close>

lemma removeSection_head: "removeSection mb 0 n = drop n mb"
  by (simp add: removeSection_def)

lemma read_usable:
  assumes "\<not> port_unusable (port s)" "buffer_consistent s" "0 \<le> n"
  shows "SerialPortInputStream_read s n =
           Inr (min n (numBufferedBytes s), take (nat n) (buffer s),
                s\<lparr>buffer := drop (nat n) (buffer s),
                  numBufferedBytes := int (length (drop (nat n) (buffer s)))\<rparr>)"
  using assms
  by (auto simp: SerialPortInputStream_read_def buffer_consistent_def memcpy_def
      removeSection_head Let_def min_def)

lemma read_unusable:
  "port_unusable (port s) \<Longrightarrow> SerialPortInputStream_read s n = Inr (- 1, [], s)"
  by (simp add: SerialPortInputStream_read_def)

text \<open>
  A negative count is not clamped and reaches \<^verbatim>\<open>memcpy\<close> as a huge
  \<^verbatim>\<open>size_t\<close>: outside what the function can be called with.
\<close>

lemma read_negative_count:
  assumes "\<not> port_unusable (port s)" and "0 \<le> numBufferedBytes s" and "n < 0"
  shows "SerialPortInputStream_read s n = Inl OutOfBounds"
  using assms by (simp add: SerialPortInputStream_read_def memcpy_def)

lemma open_port_usable: "\<not> port_unusable (Some open_port)"
  by (simp add: port_unusable_def open_port_def INVALID_HANDLE_def)

lemma input_stream_with_consistent: "buffer_consistent (input_stream_with bs)"
  by (simp add: buffer_consistent_def input_stream_with_def)

lemma input_stream_with_usable: "\<not> port_unusable (port (input_stream_with bs))"
  by (simp add: input_stream_with_def open_port_usable)

text \<open>
  C1. On a usable port, with the counter in step with the block and a
  non-negative count \<open>n\<close>, \<^verbatim>\<open>read\<close> returns at once (the model is a total
  function without a loop) the number of bytes it popped, which is
  \<open>min n (numBufferedBytes)\<close>: the bytes delivered are the first \<open>n\<close> of the
  buffer, they are removed from it, the count is never more than what was
  buffered, and it is 0 on an empty buffer.
\<close>

theorem read_returns_min:
  assumes "\<not> port_unusable (port s)" and "buffer_consistent s" and "0 \<le> n"
  shows "case SerialPortInputStream_read s n of
           Inl f \<Rightarrow> False
         | Inr (r, dest, s') \<Rightarrow>
             r = min n (numBufferedBytes s)
             \<and> r = int (length dest)
             \<and> dest = take (nat n) (buffer s)
             \<and> buffer s' = drop (nat n) (buffer s)
             \<and> buffer_consistent s'
             \<and> r \<le> int (length (buffer s))
             \<and> (buffer s = [] \<longrightarrow> r = 0)"
proof -
  have len: "numBufferedBytes s = int (length (buffer s))"
    using assms(2) by (simp add: buffer_consistent_def)
  show ?thesis
    using assms(3) by (auto simp: read_usable [OF assms] len buffer_consistent_def)
qed

theorem read_returns_min_witness:
  "\<not> port_unusable (port (input_stream_with ''abc''))
   \<and> buffer_consistent (input_stream_with ''abc'')
   \<and> (0::int) \<le> 5
   \<and> SerialPortInputStream_read (input_stream_with ''abc'') 5
       = Inr (3, ''abc'', input_stream_with [])
   \<and> \<not> port_unusable (port (input_stream_with []))
   \<and> buffer_consistent (input_stream_with [])
   \<and> buffer (input_stream_with []) = []
   \<and> SerialPortInputStream_read (input_stream_with []) 5
       = Inr (0, [], input_stream_with [])"
proof -
  have u: "\<not> port_unusable (port (input_stream_with ''abc''))"
    and u0: "\<not> port_unusable (port (input_stream_with []))"
    by (rule input_stream_with_usable)+
  have c: "buffer_consistent (input_stream_with ''abc'')"
    and c0: "buffer_consistent (input_stream_with [])"
    by (rule input_stream_with_consistent)+
  have n: "(0::int) \<le> 5" by simp
  have e: "SerialPortInputStream_read (input_stream_with ''abc'') 5
             = Inr (3, ''abc'', input_stream_with [])"
    by (simp add: input_stream_with_def SerialPortInputStream_read_def memcpy_def
        removeSection_def open_port_usable)
  have e0: "SerialPortInputStream_read (input_stream_with []) 5
              = Inr (0, [], input_stream_with [])"
    by (simp add: input_stream_with_def SerialPortInputStream_read_def memcpy_def
        removeSection_def open_port_usable)
  have b0: "buffer (input_stream_with []) = []"
    by (simp add: input_stream_with_def)
  show ?thesis
    using read_returns_min [OF u c n] read_returns_min [OF u0 c0 n] u u0 c c0 e e0 b0
    by simp
qed

subsection \<open>canReadLine and isExhausted\<close>

lemma canReadLine_loop_scan:
  "0 \<le> i \<Longrightarrow> buffer_consistent s \<Longrightarrow>
     canReadLine_loop s i = Inr (CHR 0x0A \<in> set (drop (nat i) (buffer s)))"
proof (induction s i rule: canReadLine_loop.induct)
  case (1 s i)
  note unfold = canReadLine_loop.simps [of s i]
  show ?case
  proof (cases "i < numBufferedBytes s")
    case False
    with "1.prems" show ?thesis
      by (simp add: unfold buffer_consistent_def)
  next
    case True
    with "1.prems" have lt: "nat i < length (buffer s)"
      by (simp add: buffer_consistent_def)
    then have d: "drop (nat i) (buffer s) = buffer s ! nat i # drop (nat (i + 1)) (buffer s)"
      using "1.prems"(1) by (simp add: Cons_nth_drop_Suc nat_add_distrib)
    have a: "at (buffer s) i = Inr (buffer s ! nat i)"
      using lt "1.prems"(1) by (simp add: at_def)
    show ?thesis
    proof (cases "buffer s ! nat i = CHR 0x0A")
      case True
      then have "canReadLine_loop s i = Inr True"
        using \<open>i < numBufferedBytes s\<close> a by (simp add: unfold)
      moreover have "CHR 0x0A \<in> set (drop (nat i) (buffer s))"
        using True by (subst d) simp
      ultimately show ?thesis by simp
    next
      case False
      have ih: "canReadLine_loop s (i + 1)
                  = Inr (CHR 0x0A \<in> set (drop (nat (i + 1)) (buffer s)))"
        using \<open>i < numBufferedBytes s\<close> a False "1.prems" by (intro "1.IH") auto
      have "canReadLine_loop s i = canReadLine_loop s (i + 1)"
        using \<open>i < numBufferedBytes s\<close> a False by (simp add: unfold)
      moreover have "(CHR 0x0A \<in> set (drop (nat i) (buffer s)))
                     = (CHR 0x0A \<in> set (drop (nat (i + 1)) (buffer s)))"
        using False by (subst d) auto
      ultimately show ?thesis using ih by simp
    qed
  qed
qed

text \<open>
  C6. For every state of the inbound buffer (the counter in step with the
  block), \<^verbatim>\<open>canReadLine()\<close> reads only inside the block and returns true if
  and only if a newline byte is among the buffered bytes.
\<close>

theorem canReadLine_iff_newline:
  assumes "buffer_consistent s"
  shows "canReadLine s = Inr (CHR 0x0A \<in> set (buffer s))"
  using canReadLine_loop_scan [of 0 s] assms by (simp add: canReadLine_def)

theorem canReadLine_iff_newline_witness:
  "buffer_consistent (input_stream_with [CHR ''o'', CHR ''k'', CHR 0x0A, CHR ''x''])
   \<and> canReadLine (input_stream_with [CHR ''o'', CHR ''k'', CHR 0x0A, CHR ''x'']) = Inr True
   \<and> buffer_consistent (input_stream_with ''ok'')
   \<and> canReadLine (input_stream_with ''ok'') = Inr False"
proof -
  have c1: "buffer_consistent (input_stream_with [CHR ''o'', CHR ''k'', CHR 0x0A, CHR ''x''])"
    and c2: "buffer_consistent (input_stream_with ''ok'')"
    by (rule input_stream_with_consistent)+
  show ?thesis
    using c1 c2 canReadLine_iff_newline [OF c1] canReadLine_iff_newline [OF c2]
    by (simp add: input_stream_with_def)
qed

text \<open>
  C9. \<^verbatim>\<open>isExhausted()\<close> of the input stream returns true if and only if the
  number of buffered bytes is not zero: it is true exactly when unread data
  is waiting in the buffer, the reverse of what a stream's exhaustion
  usually means.
\<close>

theorem isExhausted_iff_buffered:
  "(isExhausted s \<longleftrightarrow> numBufferedBytes s \<noteq> 0)
   \<and> (buffer_consistent s \<longrightarrow> (isExhausted s \<longleftrightarrow> buffer s \<noteq> []))"
  by (auto simp: isExhausted_def buffer_consistent_def)

theorem isExhausted_iff_buffered_witness:
  "buffer_consistent (input_stream_with ''a'') \<and> isExhausted (input_stream_with ''a'')
   \<and> buffer_consistent (input_stream_with []) \<and> \<not> isExhausted (input_stream_with [])"
proof -
  have c1: "buffer_consistent (input_stream_with ''a'')"
    and c2: "buffer_consistent (input_stream_with [])"
    by (rule input_stream_with_consistent)+
  show ?thesis
    using c1 c2 isExhausted_iff_buffered [of "input_stream_with ''a''"]
      isExhausted_iff_buffered [of "input_stream_with []"]
    by (simp add: input_stream_with_def)
qed

subsection \<open>The inbound buffer is a queue\<close>

lemma run_store_appends:
  assumes "buffer_consistent s"
  shows "case run_store s c of
           Inl f \<Rightarrow> False
         | Inr s' \<Rightarrow> buffer s' = buffer s @ [c] \<and> buffer_consistent s' \<and> port s' = port s
             \<and> threadShouldExit s' = threadShouldExit s"
proof -
  have len: "numBufferedBytes s = int (length (buffer s))"
    using assms by (simp add: buffer_consistent_def)
  have "ensureSize (buffer s) (numBufferedBytes s + 1) = buffer s @ [CHR 0x00]"
    by (simp add: ensureSize_def len nat_add_distrib)
  then have "put (ensureSize (buffer s) (numBufferedBytes s + 1)) (numBufferedBytes s) c
               = Inr (buffer s @ [c])"
    by (simp add: put_def len)
  then show ?thesis
    by (simp add: run_store_def Let_def buffer_consistent_def len)
qed

lemma read_pops_prefix:
  assumes "buffer_consistent s" and "0 \<le> n"
  shows "case SerialPortInputStream_read s n of
           Inl f \<Rightarrow> False
         | Inr (r, dest, s') \<Rightarrow>
             dest @ buffer s' = buffer s \<and> buffer_consistent s'"
proof (cases "port_unusable (port s)")
  case True
  with assms show ?thesis by (simp add: read_unusable)
next
  case False
  with assms show ?thesis
    by (simp add: read_usable buffer_consistent_def)
qed

lemma in_trace_fifo:
  "buffer_consistent s \<Longrightarrow> counts_nonnegative es \<Longrightarrow>
     (case in_trace es s of
        Inl f \<Rightarrow> False
      | Inr (out, s') \<Rightarrow>
          out @ buffer s' = buffer s @ bytes_received es \<and> buffer_consistent s')"
proof (induction es arbitrary: s)
  case Nil
  then show ?case by simp
next
  case (Cons e es)
  show ?case
  proof (cases e)
    case (Recv c)
    obtain s1 where s1: "run_store s c = Inr s1" "buffer s1 = buffer s @ [c]"
      "buffer_consistent s1"
      using run_store_appends [OF Cons.prems(1), of c] by (auto split: sum.splits)
    from Cons.prems Recv have "counts_nonnegative es" by simp
    from Cons.IH [OF s1(3) this] s1 Recv show ?thesis
      by (auto split: sum.splits)
  next
    case (Read n)
    with Cons.prems have n: "0 \<le> n" and rest: "counts_nonnegative es" by simp_all
    obtain r dest s1 where s1: "SerialPortInputStream_read s n = Inr (r, dest, s1)"
      "dest @ buffer s1 = buffer s" "buffer_consistent s1"
      using read_pops_prefix [OF Cons.prems(1) n] by (auto split: sum.splits)
    from Cons.IH [OF s1(3) rest] s1 Read show ?thesis
      by (auto split: sum.splits)
  qed
qed

text \<open>
  The inner loop of \<^verbatim>\<open>run\<close> is a sequence of such stores, one per byte that
  \<^verbatim>\<open>ReadFile\<close> delivered.
\<close>

lemma read_available_as_events:
  "read_available bs s = map_sum id snd (in_trace (map Recv bs) s)"
proof (induction bs arbitrary: s)
  case Nil
  show ?case by simp
next
  case (Cons c cs)
  show ?case
    by (cases "run_store s c") (simp_all add: Cons.IH)
qed

lemma read_available_appends:
  "buffer_consistent s \<Longrightarrow>
     (case read_available bs s of
        Inl f \<Rightarrow> False
      | Inr s' \<Rightarrow> buffer s' = buffer s @ bs \<and> buffer_consistent s' \<and> port s' = port s
          \<and> threadShouldExit s' = threadShouldExit s)"
proof (induction bs arbitrary: s)
  case Nil
  then show ?case by simp
next
  case (Cons c cs)
  obtain s1 where s1: "run_store s c = Inr s1" "buffer s1 = buffer s @ [c]"
    "buffer_consistent s1" "port s1 = port s" "threadShouldExit s1 = threadShouldExit s"
    using run_store_appends [OF Cons.prems, of c] by (auto split: sum.splits)
  from Cons.IH [OF s1(3)] s1 show ?case
    by (auto split: sum.splits)
qed

text \<open>
  The loop of the worker: while it runs and \<^verbatim>\<open>WaitCommEvent\<close> does not fail, it
  stays in the loop and has appended, in order, every byte \<^verbatim>\<open>ReadFile\<close>
  delivered.
\<close>

lemma input_run_appends:
  "buffer_consistent s \<Longrightarrow> run_condition s \<Longrightarrow> no_wait_failure evs \<Longrightarrow>
     (case SerialPortInputStream_run evs io s of
        Inl f \<Rightarrow> False
      | Inr (st, s') \<Rightarrow>
          st = Running \<and> buffer s' = buffer s @ bytes_delivered evs \<and> buffer_consistent s')"
proof (induction evs arbitrary: io s)
  case Nil
  then show ?case by simp
next
  case (Cons ev evs)
  from Cons.prems(3) have nf: "\<not> waitCommEventFailed ev" and rest: "no_wait_failure evs"
    by simp_all
  show ?case
  proof (cases "eventSignalled ev \<and> commMaskOk ev")
    case True
    obtain s1 where s1: "read_available (available ev) s = Inr s1"
      "buffer s1 = buffer s @ available ev" "buffer_consistent s1" "port s1 = port s"
      "threadShouldExit s1 = threadShouldExit s"
      using read_available_appends [OF Cons.prems(1), of "available ev"]
      by (auto split: sum.splits)
    have r1: "run_condition s1"
      using Cons.prems(2) s1(4,5) by (auto simp: run_condition_def split: option.splits)
    have body: "SerialPortInputStream_run_body ev io s = Inr (False, False, s1)"
      using True nf s1(1) by (simp add: SerialPortInputStream_run_body_def)
    from Cons.IH [OF s1(3) r1 rest, of False] Cons.prems(2) True s1(2) show ?thesis
      by (auto simp: body split: sum.splits)
  next
    case False
    have body: "SerialPortInputStream_run_body ev io s = Inr (False, True, s)"
      using False nf by (auto simp: SerialPortInputStream_run_body_def)
    from Cons.IH [OF Cons.prems(1,2) rest, of True] Cons.prems(2) False show ?thesis
      by (auto simp: body split: sum.splits)
  qed
qed

text \<open>
  C2. The inbound buffer is a first-in first-out queue. The I/O thread
  appends every byte it receives at the tail: each store puts its byte behind
  the buffer, the inner loop of \<^verbatim>\<open>run\<close> stores every byte \<^verbatim>\<open>ReadFile\<close>
  delivered, in order, and so does the whole loop over any turns in which
  \<^verbatim>\<open>WaitCommEvent\<close> does not fail. \<^verbatim>\<open>read\<close> delivers a prefix of the buffer and
  removes exactly that prefix; and over any sequence of stores of the thread
  and \<^verbatim>\<open>read\<close> calls, the bytes delivered so far followed by the bytes still
  buffered are the bytes stored, in the order of their arrival: a byte that a
  \<^verbatim>\<open>read\<close> removed is in no later delivery.
\<close>

theorem inbound_buffer_fifo:
  assumes "buffer_consistent s" and "counts_nonnegative es" and "0 \<le> n"
  shows "(case run_store s c of
            Inl f \<Rightarrow> False
          | Inr s' \<Rightarrow> buffer s' = buffer s @ [c])
         \<and> (case SerialPortInputStream_read s n of
               Inl f \<Rightarrow> False
             | Inr (r, dest, s') \<Rightarrow> dest @ buffer s' = buffer s)
         \<and> (case in_trace es s of
               Inl f \<Rightarrow> False
             | Inr (out, s') \<Rightarrow> out @ buffer s' = buffer s @ bytes_received es)
         \<and> (case read_available bs s of
               Inl f \<Rightarrow> False
             | Inr s' \<Rightarrow> buffer s' = buffer s @ bs)
         \<and> read_available bs s = map_sum id snd (in_trace (map Recv bs) s)
         \<and> (run_condition s \<and> no_wait_failure evs \<longrightarrow>
              (case SerialPortInputStream_run evs io s of
                 Inl f \<Rightarrow> False
               | Inr (st, s') \<Rightarrow>
                   st = Running \<and> buffer s' = buffer s @ bytes_delivered evs))"
proof -
  have thread: "run_condition s \<and> no_wait_failure evs \<longrightarrow>
              (case SerialPortInputStream_run evs io s of
                 Inl f \<Rightarrow> False
               | Inr (st, s') \<Rightarrow>
                   st = Running \<and> buffer s' = buffer s @ bytes_delivered evs)"
    using input_run_appends [OF assms(1), of evs io] by (auto split: sum.splits)
  have inner: "case read_available bs s of
               Inl f \<Rightarrow> False
             | Inr s' \<Rightarrow> buffer s' = buffer s @ bs"
    using read_available_appends [OF assms(1), of bs] by (auto split: sum.splits)
  have steps: "(case run_store s c of
            Inl f \<Rightarrow> False
          | Inr s' \<Rightarrow> buffer s' = buffer s @ [c])
         \<and> (case SerialPortInputStream_read s n of
               Inl f \<Rightarrow> False
             | Inr (r, dest, s') \<Rightarrow> dest @ buffer s' = buffer s)
         \<and> (case in_trace es s of
               Inl f \<Rightarrow> False
             | Inr (out, s') \<Rightarrow> out @ buffer s' = buffer s @ bytes_received es)"
    using run_store_appends [OF assms(1), of c] read_pops_prefix [OF assms(1) assms(3)]
      in_trace_fifo [OF assms(1) assms(2)]
    by (auto split: sum.splits)
  show ?thesis
    using steps inner thread read_available_as_events [of bs s] by blast
qed

theorem inbound_buffer_fifo_witness:
  "buffer_consistent (input_stream_with [])
   \<and> counts_nonnegative example_in_events
   \<and> (0::int) \<le> 2
   \<and> run_condition (input_stream_with [])
   \<and> no_wait_failure example_comm_events
   \<and> run_store (input_stream_with []) (CHR ''a'') = Inr (input_stream_with ''a'')
   \<and> SerialPortInputStream_read (input_stream_with ''abc'') 2
       = Inr (2, ''ab'', input_stream_with ''c'')
   \<and> in_trace example_in_events (input_stream_with [])
       = Inr (''abc'', input_stream_with [])
   \<and> read_available ''abc'' (input_stream_with []) = Inr (input_stream_with ''abc'')
   \<and> bytes_delivered example_comm_events = ''abc''
   \<and> SerialPortInputStream_run example_comm_events False (input_stream_with [])
       = Inr (Running, input_stream_with ''abc'')"
proof -
  have c: "buffer_consistent (input_stream_with [])"
    by (rule input_stream_with_consistent)
  have nn: "counts_nonnegative example_in_events"
    by (simp add: example_in_events_def)
  have n: "(0::int) \<le> 2" by simp
  have rc: "run_condition (input_stream_with [])"
    by (simp add: run_condition_def input_stream_with_def open_port_def)
  have nf: "no_wait_failure example_comm_events"
    by (simp add: example_comm_events_def data_ready_def wait_timeout_def)
  have e1: "run_store (input_stream_with []) (CHR ''a'') = Inr (input_stream_with ''a'')"
    by (simp add: input_stream_with_def run_store_def put_def ensureSize_def)
  have e2: "SerialPortInputStream_read (input_stream_with ''abc'') 2
              = Inr (2, ''ab'', input_stream_with ''c'')"
    by (simp add: input_stream_with_def SerialPortInputStream_read_def memcpy_def
        removeSection_def open_port_usable)
  have e3: "in_trace example_in_events (input_stream_with [])
              = Inr (''abc'', input_stream_with [])"
    by (simp add: example_in_events_def input_stream_with_def run_store_def put_def
        ensureSize_def SerialPortInputStream_read_def memcpy_def removeSection_def
        open_port_usable Let_def)
  have e4: "read_available ''abc'' (input_stream_with []) = Inr (input_stream_with ''abc'')"
    by code_simp
  have e5: "bytes_delivered example_comm_events = ''abc''"
    by code_simp
  have e6: "SerialPortInputStream_run example_comm_events False (input_stream_with [])
              = Inr (Running, input_stream_with ''abc'')"
    by code_simp
  show ?thesis
    using inbound_buffer_fifo [OF c nn n, where c = "CHR ''a''" and bs = "''abc''"
        and evs = example_comm_events and io = False]
      c nn rc nf e1 e2 e3 e4 e5 e6
    by simp
qed

subsection \<open>readNextLine\<close>

lemma read_one_empty:
  assumes "\<not> port_unusable (port st)" "buffer_consistent st" "buffer st = []"
  shows "SerialPortInputStream_read st 1 = Inr (0, [], st)"
proof -
  have "numBufferedBytes st = 0" using assms by (simp add: buffer_consistent_def)
  then have "st\<lparr>buffer := [], numBufferedBytes := 0\<rparr> = st" using assms(3) by simp
  with assms show ?thesis by (simp add: read_usable buffer_consistent_def)
qed

lemma read_one_Cons:
  assumes "\<not> port_unusable (port st)" "buffer_consistent st" "buffer st = x # xs"
  shows "SerialPortInputStream_read st 1 =
           Inr (1, [x], st\<lparr>buffer := xs, numBufferedBytes := int (length xs)\<rparr>)"
  using assms by (simp add: read_usable buffer_consistent_def)

text \<open>
  The loop on a usable port: it stops at the first newline byte or at the end
  of the buffer, whichever comes first, having appended the non-null bytes
  before that point.
\<close>

lemma readNextLine_loop_result:
  assumes "\<not> port_unusable (port st)" and "buffer_consistent st"
  shows "readNextLine_loop st c acc =
           Some (Inr (acc @ filter (\<lambda>x. x \<noteq> CHR 0x00)
                              (takeWhile (\<lambda>x. x \<noteq> CHR 0x0A) (buffer st)),
                      st\<lparr>buffer := drop (Suc (length (takeWhile (\<lambda>x. x \<noteq> CHR 0x0A) (buffer st))))
                                      (buffer st),
                         numBufferedBytes :=
                           int (length (buffer st)
                                - Suc (length (takeWhile (\<lambda>x. x \<noteq> CHR 0x0A) (buffer st))))\<rparr>))"
  using assms
proof (induction "buffer st" arbitrary: st c acc)
  case Nil
  then have b: "buffer st = []" by simp
  have n: "numBufferedBytes st = 0" using Nil.prems b by (simp add: buffer_consistent_def)
  have "st\<lparr>buffer := [], numBufferedBytes := 0\<rparr> = st" using b n by simp
  then show ?case
    by (subst readNextLine_loop.simps) (simp add: read_one_empty [OF Nil.prems b] b)
next
  case (Cons x xs)
  then have b: "buffer st = x # xs" by simp
  let ?st' = "st\<lparr>buffer := xs, numBufferedBytes := int (length xs)\<rparr>"
  have r: "SerialPortInputStream_read st 1 = Inr (1, [x], ?st')"
    by (rule read_one_Cons [OF Cons.prems b])
  have u': "\<not> port_unusable (port ?st')" using Cons.prems(1) by simp
  have c': "buffer_consistent ?st'" by (simp add: buffer_consistent_def)
  show ?case
  proof (cases "x = CHR 0x0A")
    case True
    then show ?thesis
      by (subst readNextLine_loop.simps) (simp add: r b)
  next
    case False
    have "readNextLine_loop st c acc
            = readNextLine_loop ?st' x (acc @ take 1 (charToString x))"
      using False by (subst readNextLine_loop.simps) (simp add: r)
    also have "\<dots> = Some (Inr ((acc @ take 1 (charToString x))
                        @ filter (\<lambda>x. x \<noteq> CHR 0x00)
                            (takeWhile (\<lambda>x. x \<noteq> CHR 0x0A) (buffer ?st')),
                      ?st'\<lparr>buffer :=
                             drop (Suc (length (takeWhile (\<lambda>x. x \<noteq> CHR 0x0A) (buffer ?st'))))
                               (buffer ?st'),
                           numBufferedBytes :=
                             int (length (buffer ?st')
                                  - Suc (length (takeWhile (\<lambda>x. x \<noteq> CHR 0x0A)
                                                   (buffer ?st'))))\<rparr>))"
      by (rule Cons.hyps(1) [OF _ u' c']) simp
    finally show ?thesis
      using False by (simp add: b charToString_def)
  qed
qed

text \<open>
  On an unusable port \<^verbatim>\<open>read\<close> returns \<open>-1\<close>, which the loop condition takes
  for true, and \<open>c\<close> never changes: the call does not return.
\<close>

lemma readNextLine_loop_unusable:
  assumes "readNextLine_loop st c acc = Some y"
  shows "\<not> (port_unusable (port st) \<and> c \<noteq> CHR 0x0A)"
proof (rule readNextLine_loop.raw_induct
    [where P = "\<lambda>st c acc y. \<not> (port_unusable (port st) \<and> c \<noteq> CHR 0x0A)", OF _ assms])
  fix loop :: "SerialPortInputStream \<Rightarrow> char \<Rightarrow> string
                 \<Rightarrow> (fault + string \<times> SerialPortInputStream) option"
    and st c s y
  assume ih: "\<And>st c s y. loop st c s = Some y
                \<Longrightarrow> \<not> (port_unusable (port st) \<and> c \<noteq> CHR 0x0A)"
    and step: "(case SerialPortInputStream_read st 1 of
                  Inl f \<Rightarrow> Some (Inl f)
                | Inr (r, dest, st') \<Rightarrow>
                    (let c' = (case dest of [] \<Rightarrow> c | x # _ \<Rightarrow> x)
                     in if r \<noteq> 0 \<and> c' \<noteq> CHR 0x0A
                        then loop st' c' (s @ take 1 (charToString c'))
                        else Some (Inr (s, st')))) = Some y"
  show "\<not> (port_unusable (port st) \<and> c \<noteq> CHR 0x0A)"
  proof
    assume a: "port_unusable (port st) \<and> c \<noteq> CHR 0x0A"
    then have "loop st c (s @ take 1 (charToString c)) = Some y"
      using step by (simp add: read_unusable)
    from ih [OF this] a show False by simp
  qed
qed

lemma readNextLine_unusable_never_returns:
  assumes "port_unusable (port st)"
  shows "readNextLine st = None"
proof -
  have "readNextLine_loop st (CHR 0x00) [] = None"
  proof (cases "readNextLine_loop st (CHR 0x00) []")
    case (Some y)
    from readNextLine_loop_unusable [OF this] assms show ?thesis by simp
  qed simp
  then show ?thesis by (simp add: readNextLine_def)
qed

text \<open>
  C4 as the claim states it: \<^verbatim>\<open>readNextLine()\<close> blocks until a newline byte is
  seen and trims only the trailing line delimiter. It fails on a buffer
  \<open>''  ab''\<close> without a newline, where the call returns at once, and returns
  \<open>''ab''\<close> without the two leading blanks; and on the line \<open>''  a b ''\<close> followed
  by CR LF, of which \<open>''a b''\<close> is returned.
\<close>

theorem readNextLine_counterexample:
  "CHR 0x0A \<notin> set (buffer (input_stream_with ''  ab''))
   \<and> readNextLine (input_stream_with ''  ab'') = Some (Inr (''ab'', input_stream_with []))
   \<and> readNextLine (input_stream_with example_line)
       = Some (Inr (''a b'', input_stream_with ''xy''))"
  by code_simp

text \<open>
  C4, amended. On a usable port \<^verbatim>\<open>readNextLine()\<close> does not block: it pops
  bytes with \<^verbatim>\<open>read\<close> one at a time until it has popped a newline byte or the
  buffer is empty, and returns the characters popped before that point, null
  characters left out, with the whitespace at both ends removed. (The
  statement is for a call during which the worker stores no byte.)
\<close>

theorem readNextLine_returns_trimmed:
  assumes "\<not> port_unusable (port st)" and "buffer_consistent st"
  shows "readNextLine st =
           Some (Inr (trim (filter (\<lambda>x. x \<noteq> CHR 0x00)
                              (takeWhile (\<lambda>x. x \<noteq> CHR 0x0A) (buffer st))),
                      st\<lparr>buffer := drop (Suc (length (takeWhile (\<lambda>x. x \<noteq> CHR 0x0A) (buffer st))))
                                      (buffer st),
                         numBufferedBytes :=
                           int (length (buffer st)
                                - Suc (length (takeWhile (\<lambda>x. x \<noteq> CHR 0x0A) (buffer st))))\<rparr>))"
  by (simp add: readNextLine_def readNextLine_loop_result [OF assms])

theorem readNextLine_returns_trimmed_witness:
  "\<not> port_unusable (port (input_stream_with example_line))
   \<and> buffer_consistent (input_stream_with example_line)
   \<and> readNextLine (input_stream_with example_line)
       = Some (Inr (''a b'', input_stream_with ''xy''))"
proof -
  have u: "\<not> port_unusable (port (input_stream_with example_line))"
    by (rule input_stream_with_usable)
  have c: "buffer_consistent (input_stream_with example_line)"
    by (rule input_stream_with_consistent)
  show ?thesis
    using u c readNextLine_returns_trimmed [OF u c]
    by (simp add: input_stream_with_def example_line_def trim_def isWhitespace_def)
qed

section \<open>Properties of the port\<close>

subsection \<open>Configuration\<close>

text \<open>
  C10. A default-constructed \<^verbatim>\<open>SerialPortConfig\<close> has \<^verbatim>\<open>bps\<close> 9600 and
  \<^verbatim>\<open>databits\<close> 9600 as well (not 8); its \<^verbatim>\<open>parity\<close> has no initialiser and is
  whatever value the storage held.
\<close>

theorem default_config_databits:
  "bps (SerialPortConfig_default p) = 9600
   \<and> databits (SerialPortConfig_default p) = 9600
   \<and> databits (SerialPortConfig_default p) \<noteq> 8
   \<and> parity (SerialPortConfig_default p) = p
   \<and> stopbits (SerialPortConfig_default p) = STOPBITS_1
   \<and> flowcontrol (SerialPortConfig_default p) = FLOWCONTROL_NONE"
  by (simp add: SerialPortConfig_default_def)

text \<open>What \<^verbatim>\<open>setConfig\<close> makes of it: \<^verbatim>\<open>(BYTE) 9600\<close> is 128.\<close>

lemma default_config_ByteSize:
  "ByteSize (setConfig_dcb (SerialPortConfig_default p)) = 128"
  by (cases p) (simp_all add: setConfig_dcb_def SerialPortConfig_default_def zero_DCB_def)

lemmas dcb_constants =
  NOPARITY_def ODDPARITY_def EVENPARITY_def MARKPARITY_def SPACEPARITY_def
  ONESTOPBIT_def ONE5STOPBITS_def TWOSTOPBITS_def
  DTR_CONTROL_ENABLE_def DTR_CONTROL_HANDSHAKE_def
  RTS_CONTROL_ENABLE_def RTS_CONTROL_HANDSHAKE_def

lemma roundtrip_parity:
  "parity (getConfig_dcb (setConfig_dcb config) c) = parity config"
  by (cases "parity config"; cases "stopbits config"; cases "flowcontrol config")
     (simp_all add: getConfig_dcb_def setConfig_dcb_def zero_DCB_def dcb_constants)

lemma roundtrip_stopbits:
  "stopbits (getConfig_dcb (setConfig_dcb config) c) = stopbits config"
  by (cases "parity config"; cases "stopbits config"; cases "flowcontrol config")
     (simp_all add: getConfig_dcb_def setConfig_dcb_def zero_DCB_def dcb_constants)

lemma roundtrip_flowcontrol:
  "flowcontrol (getConfig_dcb (setConfig_dcb config) c) = flowcontrol config"
  by (cases "parity config"; cases "stopbits config"; cases "flowcontrol config")
     (simp_all add: getConfig_dcb_def setConfig_dcb_def zero_DCB_def dcb_constants)

text \<open>
  C7. The translation of the configuration round-trips: for every
  \<^verbatim>\<open>SerialPortConfig\<close> whose parity, stop bits and flow control are enumerated
  values, the \<^verbatim>\<open>DCB\<close> that \<^verbatim>\<open>setConfig\<close> builds is read back by \<^verbatim>\<open>getConfig\<close> as
  the same parity, stop bits and flow control, whatever \<^verbatim>\<open>config\<close> held before.
\<close>

theorem config_roundtrip:
  "parity (getConfig_dcb (setConfig_dcb config) c) = parity config
   \<and> stopbits (getConfig_dcb (setConfig_dcb config) c) = stopbits config
   \<and> flowcontrol (getConfig_dcb (setConfig_dcb config) c) = flowcontrol config"
  by (simp add: roundtrip_parity roundtrip_stopbits roundtrip_flowcontrol)

text \<open>
  Through the two functions, on an open port whose device keeps the \<^verbatim>\<open>DCB\<close> it
  was given; and on an invalid handle, where both fail.
\<close>

lemma setConfig_getConfig_device:
  assumes "portHandle p \<noteq> INVALID_HANDLE"
  shows "SerialPort_setConfig (\<lambda>h dcb. True) p config
         \<and> fst (SerialPort_getConfig (\<lambda>h. Some (setConfig_dcb config)) p c)
         \<and> parity (snd (SerialPort_getConfig (\<lambda>h. Some (setConfig_dcb config)) p c))
             = parity config
         \<and> stopbits (snd (SerialPort_getConfig (\<lambda>h. Some (setConfig_dcb config)) p c))
             = stopbits config
         \<and> flowcontrol (snd (SerialPort_getConfig (\<lambda>h. Some (setConfig_dcb config)) p c))
             = flowcontrol config"
  using assms
  by (simp add: SerialPort_setConfig_def SerialPort_getConfig_def roundtrip_parity
      roundtrip_stopbits roundtrip_flowcontrol)

lemma config_invalid_handle:
  assumes "portHandle p = INVALID_HANDLE"
  shows "\<not> SerialPort_setConfig sc p config \<and> SerialPort_getConfig gc p c = (False, c)"
  using assms by (simp add: SerialPort_setConfig_def SerialPort_getConfig_def)

subsection \<open>open\<close>

text \<open>When \<^verbatim>\<open>CreateFile\<close> fails, \<^verbatim>\<open>open\<close> returns false and resets the handle.\<close>

lemma open_CreateFile_failure:
  "CreateFile os path = INVALID_HANDLE_VALUE \<Longrightarrow>
     fst (SerialPort_open os p path) = False
     \<and> \<not> SerialPort_exists (snd (SerialPort_open os p path))"
  by (simp add: SerialPort_open_def SerialPort_exists_def INVALID_HANDLE_def Let_def)

lemma open_nonexistent_path:
  "SerialPort_open no_such_path new_port ''COM99'' = (False, new_port\<lparr>portPath := ''COM99''\<rparr>)
   \<and> \<not> SerialPort_exists (snd (SerialPort_open no_such_path new_port ''COM99''))"
  by (simp add: SerialPort_open_def no_such_path_def new_port_def SerialPort_exists_def
      INVALID_HANDLE_def Let_def)

text \<open>
  C3. After every \<^verbatim>\<open>open\<close> that returns false, \<^verbatim>\<open>exists()\<close> should be false and
  the port closed. The code does so when \<^verbatim>\<open>CreateFile\<close> fails, but the three
  later failure branches return without closing the handle: on a path that
  opens but is no serial device, \<^verbatim>\<open>open\<close> returns false, keeps the handle,
  and \<^verbatim>\<open>exists()\<close> is true.
\<close>

theorem open_failure_keeps_handle:
  "SerialPort_open not_a_comm_device new_port ''notes.txt''
     = (False, new_port\<lparr>portPath := ''notes.txt'', portHandle := 4\<rparr>)
   \<and> SerialPort_exists (snd (SerialPort_open not_a_comm_device new_port ''notes.txt''))
   \<and> \<not> port_unusable (Some (snd (SerialPort_open not_a_comm_device new_port ''notes.txt'')))"
  by (simp add: SerialPort_open_def not_a_comm_device_def new_port_def SerialPort_exists_def
      port_unusable_def INVALID_HANDLE_def INVALID_HANDLE_VALUE_def Let_def)

section \<open>Properties of the output stream\<close>

text \<open>
  A turn copies its chunk in one critical section and removes the written
  bytes in a later one. A \<^verbatim>\<open>write\<close> that comes between the two appends behind
  the chunk, so the removal meets the same head: the turn may be taken as one
  step.
\<close>

lemma removal_commutes_with_write:
  "k \<le> length mb \<Longrightarrow> removeSection (mb @ d) 0 k = removeSection mb 0 k @ d"
  by (simp add: removeSection_head)





lemma run_condition_update [simp]:
  "run_condition (s\<lparr>buffer := b, numBufferedBytes := k\<rparr>) = run_condition s"
  by (simp add: run_condition_def split: option.splits)




lemma chunks_bounded_append [simp]:
  "chunks_bounded (hs @ hs') = (chunks_bounded hs \<and> chunks_bounded hs')"
  by (induction hs) auto














text \<open>A buffer of 130 bytes goes to the device as a chunk of 128 and one of 2.\<close>

lemma chunks_of_long_buffer:
  "length long_buffer = 130
   \<and> (case SerialPortOutputStream_run [completing_device, completing_device]
              (output_stream_with long_buffer) of
         Inl f \<Rightarrow> False
       | Inr (st, handed, removed, s') \<Rightarrow>
           map (\<lambda>(chunk, r). length chunk) handed = [128, 2] \<and> removed = long_buffer
           \<and> s' = output_stream_with [])"
  by code_simp

section \<open>Properties of the worker loops\<close>



lemma set_canceled_input_fields [simp]:
  "notify (set_canceled b i) = notify i"
  "notifyChar (set_canceled b i) = notifyChar i"
  "changeMessages (set_canceled b i) = changeMessages i"
  by (simp_all add: set_canceled_def)

lemma run_condition_set_canceled [simp]:
  "run_condition (set_canceled b s) = run_condition s"
  by (simp add: run_condition_def set_canceled_def split: option.splits)



















end
